theory Spec2Isabelle
  imports Complex_Main
begin

section \<open>JavaScript numbers and values\<close>

text \<open>
  The scoring code computes with JavaScript numbers. A number is modelled as a finite
  value, one of the two infinities, or NaN. Finite arithmetic is exact (no rounding to a
  double) and every zero is the positive zero: the counts and table constants of the
  program are small decimals, far from the range limits of a double.
\<close>

datatype js_num = Num real | PosInf | NegInf | NaN

fun sgn_of :: "js_num \<Rightarrow> real" where
  "sgn_of (Num a) = sgn a"
| "sgn_of PosInf = 1"
| "sgn_of NegInf = - 1"
| "sgn_of NaN = 0"

definition inf_of_sign :: "real \<Rightarrow> js_num" where
  "inf_of_sign s = (if 0 < s then PosInf else if s < 0 then NegInf else NaN)"

fun js_add :: "js_num \<Rightarrow> js_num \<Rightarrow> js_num" where
  "js_add NaN y = NaN"
| "js_add x NaN = NaN"
| "js_add (Num a) (Num b) = Num (a + b)"
| "js_add PosInf NegInf = NaN"
| "js_add NegInf PosInf = NaN"
| "js_add PosInf y = PosInf"
| "js_add NegInf y = NegInf"
| "js_add (Num a) y = y"

fun js_mul :: "js_num \<Rightarrow> js_num \<Rightarrow> js_num" where
  "js_mul NaN y = NaN"
| "js_mul x NaN = NaN"
| "js_mul (Num a) (Num b) = Num (a * b)"
| "js_mul x y = inf_of_sign (sgn_of x * sgn_of y)"

fun js_div :: "js_num \<Rightarrow> js_num \<Rightarrow> js_num" where
  "js_div NaN y = NaN"
| "js_div x NaN = NaN"
| "js_div (Num a) (Num b) = (if b = 0 then inf_of_sign (sgn a) else Num (a / b))"
| "js_div (Num a) y = Num 0"
| "js_div x (Num b) = inf_of_sign (sgn_of x * (if b < 0 then - 1 else 1))"
| "js_div x y = NaN"

text \<open>\<open>Math.round\<close>: the nearest integer, a half rounded towards plus infinity.\<close>

fun Math_round :: "js_num \<Rightarrow> js_num" where
  "Math_round (Num x) = Num (of_int \<lfloor>x + 1 / 2\<rfloor>)"
| "Math_round x = x"

fun Math_min :: "js_num \<Rightarrow> js_num \<Rightarrow> js_num" where
  "Math_min NaN y = NaN"
| "Math_min x NaN = NaN"
| "Math_min NegInf y = NegInf"
| "Math_min x NegInf = NegInf"
| "Math_min PosInf y = y"
| "Math_min x PosInf = x"
| "Math_min (Num a) (Num b) = Num (min a b)"



text \<open>
  A property of an object read by destructuring is missing (\<open>undefined\<close>), \<open>null\<close> or a
  number. A destructuring default replaces \<open>undefined\<close> only; in arithmetic \<open>null\<close>
  converts to 0 and \<open>undefined\<close> to NaN.
\<close>

datatype js_value = Undefined | Null | Number js_num

fun with_default :: "js_value \<Rightarrow> js_num \<Rightarrow> js_value" where
  "with_default Undefined d = Number d"
| "with_default v d = v"

fun ToNumber :: "js_value \<Rightarrow> js_num" where
  "ToNumber Undefined = NaN"
| "ToNumber Null = Num 0"
| "ToNumber (Number x) = x"

section \<open>Vulnerability score (impactCalculation.js)\<close>

record demographics =
  elderly_population :: js_value
  children_population :: js_value
  disabled_population :: js_value
  low_income_population :: js_value
  population :: js_value

definition calculateVulnerabilityScore :: "demographics \<Rightarrow> js_num" where
  "calculateVulnerabilityScore d =
    (let elderly = ToNumber (with_default (elderly_population d) (Num 0));
         children = ToNumber (with_default (children_population d) (Num 0));
         disabled = ToNumber (with_default (disabled_population d) (Num 0));
         low_income = ToNumber (with_default (low_income_population d) (Num 0));
         pop = ToNumber (with_default (population d) (Num 1));
         elderlyPct = js_mul (js_div elderly pop) (Num 100);
         childrenPct = js_mul (js_div children pop) (Num 100);
         disabledPct = js_mul (js_div disabled pop) (Num 100);
         lowIncomePct = js_mul (js_div low_income pop) (Num 100);
         score = js_add (js_add (js_add (js_mul elderlyPct (Num (3 / 10)))
                                        (js_mul childrenPct (Num (2 / 10))))
                                (js_mul disabledPct (Num (3 / 10))))
                        (js_mul lowIncomePct (Num (2 / 10)))
     in Math_min (Num 100) (Math_round score))"

section \<open>The database (config/database.js, migrations/001_initial_schema.sql)\<close>

text \<open>
  Every service function sends one SQL statement to PostgreSQL through \<open>db.query\<close> and
  works on the rows that come back. The tables are lists of rows in the order a scan
  delivers them; the columns are those the statements read. The PostGIS functions the
  statements call are not part of the repository: they are the fields of a parameter
  \<open>G\<close>, over a type \<open>'g\<close> of geometries and a type \<open>'j\<close> of GeoJSON documents.
\<close>

record ('g, 'j) postgis =
  ST_Intersects :: "'g \<Rightarrow> 'g \<Rightarrow> bool"
  ST_DWithin :: "'g \<Rightarrow> 'g \<Rightarrow> real \<Rightarrow> bool"
  ST_Distance :: "'g \<Rightarrow> 'g \<Rightarrow> real"
  ST_Buffer :: "'g \<Rightarrow> real \<Rightarrow> 'g"
  ST_Area :: "'g \<Rightarrow> real"
  ST_AsGeoJSON :: "'g \<Rightarrow> 'j"
  ST_GeomFromGeoJSON :: "'j \<Rightarrow> 'g"
  ST_MakePoint :: "real \<Rightarrow> real \<Rightarrow> 'g"
  knn_distance :: "'g \<Rightarrow> 'g \<Rightarrow> real"

text \<open>
  \<open>knn_distance\<close> is the operator \<open><->\<close> on geometries, \<open>ST_Distance\<close> and \<open>ST_DWithin\<close>
  are the ones on geographies (metres).
\<close>

record 'g disaster =
  d_id :: int
  d_type :: string
  d_severity :: "string option"
  d_geometry :: 'g
  d_centroid :: 'g
  d_area_sq_km :: "real option"

record 'g census_block =
  cb_id :: int
  cb_geometry :: 'g
  cb_population :: int
  cb_households :: "int option"
  cb_elderly_population :: "int option"
  cb_children_population :: "int option"
  cb_disabled_population :: "int option"

record 'g infrastructure_site =
  i_id :: int
  i_name :: string
  i_type :: string
  i_location :: 'g
  i_address :: "string option"
  i_capacity :: "int option"
  i_operational_status :: "bool option"

text \<open>
  An error is what \<open>db.query\<close> rejects with (a PostgreSQL error carries its SQLSTATE in
  \<open>code\<close>, then its message; a pool or connection failure is a plain \<open>Error\<close>), an \<open>Error\<close> the code throws
  itself, or the \<open>TypeError\<close> of reading a property of \<open>undefined\<close>.
\<close>

datatype js_error = PgError string string | Error string | TypeError string

datatype query = QPopulation | QInfrastructure | QZones | QDisaster | QInsert | QNearest

record assessment =
  disaster_id :: int
  affected_population :: js_num
  affected_households :: js_num
  vulnerable_population :: js_num
  affected_hospitals :: js_num
  affected_shelters :: js_num
  affected_critical_infrastructure :: js_num
  estimated_economic_loss :: js_num
  affected_area_sq_km :: real

record 'g assessment_row = assessment +
  row_id :: int
  row_assessment_time :: int
  evacuation_zone_1km :: 'g
  evacuation_zone_5km :: 'g
  evacuation_zone_10km :: 'g

text \<open>
  The state of the database: the four tables, the sequence behind
  \<open>impact_assessments.id\<close>, the clock read by \<open>NOW()\<close>, and for each statement whether the
  server or the connection pool rejects it (\<open>fault\<close>), which is the environment's choice.
\<close>

record 'g database =
  disasters :: "'g disaster list"
  census_blocks :: "'g census_block list"
  infrastructure :: "'g infrastructure_site list"
  impact_assessments :: "'g assessment_row list"
  next_assessment_id :: int
  now :: int
  fault :: "query \<Rightarrow> js_error option"

definition db_query :: "'g database \<Rightarrow> query \<Rightarrow> 'a \<Rightarrow> js_error + 'a" where
  "db_query db q rows = (case fault db q of Some e \<Rightarrow> Inl e | None \<Rightarrow> Inr rows)"

text \<open>
  \<open>SUM\<close> skips NULLs and is NULL when nothing is left to add. node-postgres delivers a
  \<open>bigint\<close> (the type of \<open>SUM\<close> over integers and of \<open>COUNT\<close>) as the string of its
  decimal digits and NULL as \<open>null\<close>: \<open>Int8Text n\<close> stands for that string.
\<close>

datatype int8_cell = SqlNull | Int8Text int

fun non_null :: "'a option list \<Rightarrow> 'a list" where
  "non_null [] = []"
| "non_null (None # xs) = non_null xs"
| "non_null (Some x # xs) = x # non_null xs"

definition sql_sum :: "int option list \<Rightarrow> int8_cell" where
  "sql_sum xs = (case non_null xs of [] \<Rightarrow> SqlNull | y # ys \<Rightarrow> Int8Text (sum_list (y # ys)))"

definition sql_count :: "'a option list \<Rightarrow> int8_cell" where
  "sql_count xs = Int8Text (int (length (non_null xs)))"

text \<open>\<open>parseInt\<close> of such a cell, and \<open>x || 0\<close> on a number (NaN and 0 are falsy).\<close>

fun parseInt :: "int8_cell \<Rightarrow> js_num" where
  "parseInt SqlNull = NaN"
| "parseInt (Int8Text n) = Num (of_int n)"

fun or_zero :: "js_num \<Rightarrow> js_num" where
  "or_zero NaN = Num 0"
| "or_zero x = x"

section \<open>Spatial analysis service (services/spatialAnalysis.js)\<close>

subsection \<open>calculateAffectedPopulation\<close>

text \<open>
  The columns of the one row the aggregate statement returns (\<open>r_\<close> is prefixed to the
  SQL aliases). The join pairs every census block with the disaster of the given id.
\<close>

record population_row =
  r_total_population :: int8_cell
  r_total_households :: int8_cell
  r_elderly_population :: int8_cell
  r_children_population :: int8_cell
  r_disabled_population :: int8_cell
  r_affected_census_blocks :: int8_cell

definition intersecting_blocks ::
  "('g, 'j) postgis \<Rightarrow> 'g database \<Rightarrow> int \<Rightarrow> 'g census_block list" where
  "intersecting_blocks G db disasterId =
     [cb. d \<leftarrow> disasters db, d_id d = disasterId, cb \<leftarrow> census_blocks db,
          ST_Intersects G (cb_geometry cb) (d_geometry d)]"

definition calculateAffectedPopulation ::
  "('g, 'j) postgis \<Rightarrow> 'g database \<Rightarrow> int \<Rightarrow> js_error + population_row" where
  "calculateAffectedPopulation G db disasterId =
    (let joined = intersecting_blocks G db disasterId
     in db_query db QPopulation
          \<lparr>r_total_population = sql_sum (map (\<lambda>cb. Some (cb_population cb)) joined),
           r_total_households = sql_sum (map cb_households joined),
           r_elderly_population = sql_sum (map cb_elderly_population joined),
           r_children_population = sql_sum (map cb_children_population joined),
           r_disabled_population = sql_sum (map cb_disabled_population joined),
           r_affected_census_blocks = sql_count (map (\<lambda>cb. Some (cb_id cb)) joined)\<rparr>)"

subsection \<open>findAffectedInfrastructure\<close>

record 'j infrastructure_hit =
  h_id :: int
  h_name :: string
  h_type :: string
  h_capacity :: "int option"
  h_operational_status :: "bool option"
  h_location :: 'j
  h_distance_km :: real

text \<open>
  \<open>ORDER BY\<close> is a stable sort of the rows in scan order: SQL leaves the order of rows
  with equal keys open, and this is the order an executor that sorts its input produces.
\<close>

definition findAffectedInfrastructure ::
  "('g, 'j) postgis \<Rightarrow> 'g database \<Rightarrow> int \<Rightarrow> real \<Rightarrow> js_error + 'j infrastructure_hit list" where
  "findAffectedInfrastructure G db disasterId bufferKm =
     db_query db QInfrastructure
       (sort_key h_distance_km
          [\<lparr>h_id = i_id i, h_name = i_name i, h_type = i_type i, h_capacity = i_capacity i,
            h_operational_status = i_operational_status i,
            h_location = ST_AsGeoJSON G (i_location i),
            h_distance_km = ST_Distance G (i_location i) (d_centroid d) / 1000\<rparr>.
           d \<leftarrow> disasters db, d_id d = disasterId, i \<leftarrow> infrastructure db,
           ST_DWithin G (i_location i) (d_geometry d) (bufferKm * 1000)])"

subsection \<open>createEvacuationZones\<close>

record 'j zones_row =
  zone_1km :: 'j
  zone_5km :: 'j
  zone_10km :: 'j
  area_1km_sq_km :: real
  area_5km_sq_km :: real
  area_10km_sq_km :: real

text \<open>\<open>result.rows[0]\<close> is \<open>undefined\<close> (here \<open>None\<close>) when no disaster has the id.\<close>

definition first_row :: "'a list \<Rightarrow> 'a option" where
  "first_row rows = (case rows of [] \<Rightarrow> None | r # rs \<Rightarrow> Some r)"

definition createEvacuationZones ::
  "('g, 'j) postgis \<Rightarrow> 'g database \<Rightarrow> int \<Rightarrow> js_error + 'j zones_row option" where
  "createEvacuationZones G db disasterId =
     db_query db QZones
       (first_row
          [\<lparr>zone_1km = ST_AsGeoJSON G (ST_Buffer G (d_geometry d) 1000),
            zone_5km = ST_AsGeoJSON G (ST_Buffer G (d_geometry d) 5000),
            zone_10km = ST_AsGeoJSON G (ST_Buffer G (d_geometry d) 10000),
            area_1km_sq_km = ST_Area G (ST_Buffer G (d_geometry d) 1000) / 1000000,
            area_5km_sq_km = ST_Area G (ST_Buffer G (d_geometry d) 5000) / 1000000,
            area_10km_sq_km = ST_Area G (ST_Buffer G (d_geometry d) 10000) / 1000000\<rparr>.
           d \<leftarrow> disasters db, d_id d = disasterId])"

subsection \<open>findNearestInfrastructure\<close>

definition infrastructure_type :: "string list" where
  "infrastructure_type =
     [''hospital'', ''emergency_shelter'', ''fire_station'', ''police_station'',
      ''power_station'', ''water_treatment'', ''school'', ''airport'', ''bridge'']"

record point =
  lat :: real
  lng :: real

record 'j nearest_row =
  n_id :: int
  n_name :: string
  n_type :: string
  n_location :: 'j
  n_address :: "string option"
  n_capacity :: "int option"
  n_operational_status :: "bool option"
  n_distance_km :: real

definition eligible_sites ::
  "'g database \<Rightarrow> string option \<Rightarrow> 'g infrastructure_site list" where
  "eligible_sites db infrastructureType =
     filter (\<lambda>i. Some (i_type i) = infrastructureType \<and> i_operational_status i = Some True)
       (infrastructure db)"

definition query_point :: "('g, 'j) postgis \<Rightarrow> point \<Rightarrow> 'g" where
  "query_point G p = ST_MakePoint G (lng p) (lat p)"

text \<open>
  The rows the statement selects, in order (\<open>WHERE\<close>, \<open>ORDER BY\<close> the operator \<open><->\<close>,
  \<open>LIMIT\<close>), and the columns it returns for one of them.
\<close>

definition nearest_sites ::
  "('g, 'j) postgis \<Rightarrow> 'g database \<Rightarrow> 'g \<Rightarrow> string option \<Rightarrow> nat
     \<Rightarrow> 'g infrastructure_site list" where
  "nearest_sites G db q infrastructureType k =
     take k (sort_key (\<lambda>i. knn_distance G (i_location i) q)
               (eligible_sites db infrastructureType))"

definition nearest_row_of ::
  "('g, 'j) postgis \<Rightarrow> 'g \<Rightarrow> 'g infrastructure_site \<Rightarrow> 'j nearest_row" where
  "nearest_row_of G q i =
     \<lparr>n_id = i_id i, n_name = i_name i, n_type = i_type i,
      n_location = ST_AsGeoJSON G (i_location i),
      n_address = i_address i, n_capacity = i_capacity i,
      n_operational_status = i_operational_status i,
      n_distance_km = ST_Distance G (i_location i) q / 1000\<rparr>"

text \<open>
  The type argument is a string, or \<open>None\<close> for \<open>undefined\<close>, which node-postgres sends as
  NULL (no row has \<open>type = NULL\<close>). The server converts a string to the enum
  \<open>infrastructure_type\<close> and rejects one that is not a label of it with SQLSTATE 22P02.
  The limit is an integer, or \<open>None\<close> for the NaN of a failed \<open>parseInt\<close>, which the server
  rejects as well; a negative limit is rejected with 2201W.
\<close>

definition findNearestInfrastructure ::
  "('g, 'j) postgis \<Rightarrow> 'g database \<Rightarrow> point \<Rightarrow> string option \<Rightarrow> int option
     \<Rightarrow> js_error + 'j nearest_row list" where
  "findNearestInfrastructure G db p infrastructureType limit =
    (let q = query_point G p
     in case fault db QNearest of
          Some e \<Rightarrow> Inl e
        | None \<Rightarrow>
           (if (case infrastructureType of None \<Rightarrow> False
                | Some t \<Rightarrow> t \<notin> set infrastructure_type)
            then Inl (PgError ''22P02'' ''invalid input value for enum infrastructure_type'')
            else case limit of
                   None \<Rightarrow> Inl (PgError ''22P02'' ''invalid input syntax for type bigint'')
                 | Some k \<Rightarrow>
                    (if k < 0 then Inl (PgError ''2201W'' ''LIMIT must not be negative'')
                     else Inr (map (nearest_row_of G q)
                                 (nearest_sites G db q infrastructureType (nat k))))))"

subsection \<open>getDisasterImpactSummary\<close>

record vulnerable_counts =
  elderly :: js_num
  children :: js_num
  disabled :: js_num

record population_summary =
  total :: js_num
  households :: js_num
  vulnerable :: vulnerable_counts
  affected_census_blocks :: js_num

record 'j infrastructure_summary =
  infrastructure_total :: nat
  by_type :: "string \<rightharpoonup> nat"
  details :: "'j infrastructure_hit list"

record 'j impact_summary =
  summary_population :: population_summary
  summary_infrastructure :: "'j infrastructure_summary"
  evacuation_zones :: "'j zones_row option"

definition infrastructureByType :: "'j infrastructure_hit list \<Rightarrow> (string \<rightharpoonup> nat)" where
  "infrastructureByType rows =
     fold (\<lambda>item acc. acc(h_type item \<mapsto> (case acc (h_type item) of None \<Rightarrow> 0 | Some n \<Rightarrow> n) + 1))
       rows Map.empty"

text \<open>
  \<open>Promise.all\<close> rejects as soon as one of the three promises does; the error reported
  here is that of the first one in the array that failed. The property \<open>generated_at\<close>
  of the summary, the time of the call as a string, is left out.
\<close>

definition getDisasterImpactSummary ::
  "('g, 'j) postgis \<Rightarrow> 'g database \<Rightarrow> int \<Rightarrow> js_error + 'j impact_summary" where
  "getDisasterImpactSummary G db disasterId =
    (case calculateAffectedPopulation G db disasterId of
       Inl e \<Rightarrow> Inl e
     | Inr population_r \<Rightarrow>
        (case findAffectedInfrastructure G db disasterId 10 of
           Inl e \<Rightarrow> Inl e
         | Inr infra \<Rightarrow>
            (case createEvacuationZones G db disasterId of
               Inl e \<Rightarrow> Inl e
             | Inr zones \<Rightarrow>
                Inr \<lparr>summary_population =
                       \<lparr>total = or_zero (parseInt (r_total_population population_r)),
                        households = or_zero (parseInt (r_total_households population_r)),
                        vulnerable =
                          \<lparr>elderly = or_zero (parseInt (r_elderly_population population_r)),
                           children = or_zero (parseInt (r_children_population population_r)),
                           disabled = or_zero (parseInt (r_disabled_population population_r))\<rparr>,
                        affected_census_blocks =
                          or_zero (parseInt (r_affected_census_blocks population_r))\<rparr>,
                     summary_infrastructure =
                       \<lparr>infrastructure_total = length infra,
                        by_type = infrastructureByType infra,
                        details = take 10 infra\<rparr>,
                     evacuation_zones = zones\<rparr>)))"

section \<open>Impact calculation service (services/impactCalculation.js)\<close>

subsection \<open>estimateEconomicLoss\<close>

definition basePerPersonLoss :: "(string \<times> real) list" where
  "basePerPersonLoss =
     [(''minor'', 5000), (''moderate'', 15000), (''severe'', 40000), (''extreme'', 100000)]"

definition typeMultipliers :: "(string \<times> real) list" where
  "typeMultipliers =
     [(''wildfire'', 15 / 10), (''earthquake'', 2), (''flood'', 12 / 10),
      (''hurricane'', 18 / 10), (''tornado'', 16 / 10), (''severe_weather'', 8 / 10),
      (''drought'', 1), (''winter_storm'', 9 / 10)]"

text \<open>
  \<open>table[key]\<close> on an object literal: the value of the key, or \<open>undefined\<close> (\<open>None\<close>); the
  key \<open>null\<close> is looked up as the string \<open>null\<close>, which neither table has. The columns
  \<open>type\<close> and \<open>severity\<close> are enums of the schema, so the names of the properties every
  object inherits never occur as keys. \<open>v || d\<close> takes \<open>d\<close> when \<open>v\<close> is \<open>undefined\<close> or 0.
\<close>

definition lookup :: "(string \<times> real) list \<Rightarrow> string option \<Rightarrow> real option" where
  "lookup table key = (case key of None \<Rightarrow> None | Some k \<Rightarrow> map_of table k)"

definition or_else :: "real option \<Rightarrow> real \<Rightarrow> real" where
  "or_else v d = (case v of None \<Rightarrow> d | Some x \<Rightarrow> if x = 0 then d else x)"

text \<open>
  The body of the \<open>try\<close> block. \<open>area_sq_km\<close> is a \<open>DECIMAL\<close> column: it arrives as the
  string of the number, which is truthy and which \<open>*\<close> converts back, or as \<open>null\<close>.
\<close>

definition estimateEconomicLoss_try ::
  "'g database \<Rightarrow> int \<Rightarrow> js_num \<Rightarrow> js_error + js_num" where
  "estimateEconomicLoss_try db disasterId affectedPopulation =
    (case db_query db QDisaster (filter (\<lambda>d. d_id d = disasterId) (disasters db)) of
       Inl e \<Rightarrow> Inl e
     | Inr rows \<Rightarrow>
        (case rows of
           [] \<Rightarrow> Inl (Error ''Disaster not found'')
         | row # rest \<Rightarrow>
            (let perPersonLoss = or_else (lookup basePerPersonLoss (d_severity row)) 10000;
                 typeMultiplier = or_else (lookup typeMultipliers (Some (d_type row))) 1;
                 estimatedLoss =
                   js_mul (js_mul affectedPopulation (Num perPersonLoss)) (Num typeMultiplier);
                 areaLoss =
                   js_mul (case d_area_sq_km row of None \<Rightarrow> Num 0 | Some a \<Rightarrow> Num a)
                     (Num 500000)
             in Inr (Math_round (js_add estimatedLoss areaLoss)))))"

text \<open>The \<open>catch\<close> block logs the error and returns 0.\<close>

definition estimateEconomicLoss :: "'g database \<Rightarrow> int \<Rightarrow> js_num \<Rightarrow> js_num" where
  "estimateEconomicLoss db disasterId affectedPopulation =
    (case estimateEconomicLoss_try db disasterId affectedPopulation of
       Inl e \<Rightarrow> Num 0
     | Inr loss \<Rightarrow> loss)"

subsection \<open>calculateFullImpact\<close>

record 'j full_impact = assessment +
  assessment_id :: int
  assessment_time :: int
  infrastructure_details :: "'j infrastructure_hit list"
  vulnerable_breakdown :: vulnerable_counts

definition count_or_zero :: "(string \<rightharpoonup> nat) \<Rightarrow> string \<Rightarrow> js_num" where
  "count_or_zero m k = (case m k of None \<Rightarrow> Num 0 | Some n \<Rightarrow> Num (of_nat n))"

text \<open>
  The function returns the assessment or throws, and the \<open>INSERT\<close> changes the database:
  the result is paired with the database after the call. Reading
  \<open>evacuation_zones.area_10km_sq_km\<close> throws a \<open>TypeError\<close> when the zones are \<open>undefined\<close>.
\<close>

definition calculateFullImpact ::
  "('g, 'j) postgis \<Rightarrow> 'g database \<Rightarrow> int \<Rightarrow> (js_error + 'j full_impact) \<times> 'g database" where
  "calculateFullImpact G db disasterId =
    (case getDisasterImpactSummary G db disasterId of
       Inl e \<Rightarrow> (Inl e, db)
     | Inr impactSummary \<Rightarrow>
        (let pop = summary_population impactSummary;
             infra = summary_infrastructure impactSummary;
             economicLoss = estimateEconomicLoss db disasterId (total pop)
         in case evacuation_zones impactSummary of
              None \<Rightarrow> (Inl (TypeError ''Cannot read properties of undefined''), db)
            | Some zones \<Rightarrow>
               (case db_query db QInsert (next_assessment_id db, now db) of
                  Inl e \<Rightarrow> (Inl e, db)
                | Inr (new_id, time) \<Rightarrow>
                   (Inr \<lparr>disaster_id = disasterId,
                         affected_population = total pop,
                         affected_households = households pop,
                         vulnerable_population =
                           js_add (js_add (elderly (vulnerable pop)) (children (vulnerable pop)))
                             (disabled (vulnerable pop)),
                         affected_hospitals = count_or_zero (by_type infra) ''hospital'',
                         affected_shelters = count_or_zero (by_type infra) ''emergency_shelter'',
                         affected_critical_infrastructure = Num (of_nat (infrastructure_total infra)),
                         estimated_economic_loss = economicLoss,
                         affected_area_sq_km = area_10km_sq_km zones,
                         assessment_id = new_id,
                         assessment_time = time,
                         infrastructure_details = details infra,
                         vulnerable_breakdown = vulnerable pop\<rparr>,
                    db\<lparr>impact_assessments := impact_assessments db @
                          [\<lparr>disaster_id = disasterId,
                            affected_population = total pop,
                            affected_households = households pop,
                            vulnerable_population =
                              js_add (js_add (elderly (vulnerable pop)) (children (vulnerable pop)))
                                (disabled (vulnerable pop)),
                            affected_hospitals = count_or_zero (by_type infra) ''hospital'',
                            affected_shelters = count_or_zero (by_type infra) ''emergency_shelter'',
                            affected_critical_infrastructure =
                              Num (of_nat (infrastructure_total infra)),
                            estimated_economic_loss = economicLoss,
                            affected_area_sq_km = area_10km_sq_km zones,
                            row_id = new_id,
                            row_assessment_time = time,
                            evacuation_zone_1km = ST_GeomFromGeoJSON G (zone_1km zones),
                            evacuation_zone_5km = ST_GeomFromGeoJSON G (zone_5km zones),
                            evacuation_zone_10km = ST_GeomFromGeoJSON G (zone_10km zones)\<rparr>],
                       next_assessment_id := next_assessment_id db + 1\<rparr>))))"

section \<open>The nearest-infrastructure endpoint (infrastructure controller, error handler)\<close>

text \<open>
  A handler answers with a JSON body (\<open>success: true\<close> and the data, or a status and a
  message) or passes an error to \<open>next\<close>, where the error-handling middleware answers.
\<close>

datatype 'r response = Json_success 'r | Json_failure nat string

datatype 'r outcome = Respond "'r response" | Next js_error

text \<open>
  The query string of a request: \<open>type\<close> is a string or missing; \<open>limit\<close> is missing, the
  digits of an integer, or something \<open>parseInt\<close> turns into NaN.
\<close>

datatype query_number = Absent | Digits int | NotANumber

record nearest_request =
  params_lat :: real
  params_lng :: real
  query_type :: "string option"
  query_limit :: query_number

fun parseInt_limit :: "query_number \<Rightarrow> int option" where
  "parseInt_limit Absent = Some 5"
| "parseInt_limit (Digits n) = Some n"
| "parseInt_limit NotANumber = None"

definition findNearest ::
  "('g, 'j) postgis \<Rightarrow> 'g database \<Rightarrow> nearest_request \<Rightarrow> (nat \<times> 'j nearest_row list) outcome" where
  "findNearest G db req =
    (let p = \<lparr>lat = params_lat req, lng = params_lng req\<rparr>
     in if query_type req = None \<or> query_type req = Some []
        then Respond (Json_failure 400 ''Infrastructure type is required'')
        else case findNearestInfrastructure G db p (query_type req)
                    (parseInt_limit (query_limit req)) of
               Inl e \<Rightarrow> Next e
             | Inr nearest \<Rightarrow> Respond (Json_success (length nearest, nearest)))"

definition message_or :: "string \<Rightarrow> string" where
  "message_or m = (if m = [] then ''Internal server error'' else m)"

fun errorHandler :: "js_error \<Rightarrow> 'r response" where
  "errorHandler (PgError code m) =
     (if code = ''23505'' then Json_failure 409 ''Resource already exists''
      else if code = ''23503'' then Json_failure 400 ''Invalid reference to related resource''
      else if code = ''22P02'' then Json_failure 400 ''Invalid data format''
      else Json_failure 500 (message_or m))"
| "errorHandler (Error m) = Json_failure 500 (message_or m)"
| "errorHandler (TypeError m) = Json_failure 500 (message_or m)"

text \<open>The route \<open>GET /api/infrastructure/nearest/:lat/:lng\<close> with the middleware behind it.\<close>

definition route_nearest ::
  "('g, 'j) postgis \<Rightarrow> 'g database \<Rightarrow> nearest_request \<Rightarrow> (nat \<times> 'j nearest_row list) response" where
  "route_nearest G db req =
    (case findNearest G db req of Respond r \<Rightarrow> r | Next e \<Rightarrow> errorHandler e)"

section \<open>Inputs used in the statements below\<close>

text \<open>The demographics object whose five properties are all present and finite numbers.\<close>

definition numeric_demographics :: "real \<Rightarrow> real \<Rightarrow> real \<Rightarrow> real \<Rightarrow> real \<Rightarrow> demographics" where
  "numeric_demographics e c x l p =
     \<lparr>elderly_population = Number (Num e), children_population = Number (Num c),
      disabled_population = Number (Num x), low_income_population = Number (Num l),
      population = Number (Num p)\<rparr>"


text \<open>
  A toy PostGIS for concrete runs: a geometry is a position on a line, in metres, and is
  its own GeoJSON document; two geometries intersect when they are equal; a buffer is the
  geometry itself.
\<close>

definition line_postgis :: "(int, int) postgis" where
  "line_postgis =
     \<lparr>ST_Intersects = (\<lambda>a b. a = b),
      ST_DWithin = (\<lambda>a b r. \<bar>real_of_int (a - b)\<bar> \<le> r),
      ST_Distance = (\<lambda>a b. \<bar>real_of_int (a - b)\<bar>),
      ST_Buffer = (\<lambda>g r. g),
      ST_Area = (\<lambda>g. 0),
      ST_AsGeoJSON = (\<lambda>g. g),
      ST_GeomFromGeoJSON = (\<lambda>j. j),
      ST_MakePoint = (\<lambda>x y. \<lfloor>x\<rfloor>),
      knn_distance = (\<lambda>a b. \<bar>real_of_int (a - b)\<bar>)\<rparr>"

text \<open>
  A database with one severe earthquake (id 1, at position 0, area 0), two census blocks of
  which the first lies on the disaster, two operational hospitals at the same distance
  from position 0, the one with the larger id first in scan order, a hospital that is not
  operational and a shelter. No statement is rejected.
\<close>

definition quake_db :: "int database" where
  "quake_db =
     \<lparr>disasters =
        [\<lparr>d_id = 1, d_type = ''earthquake'', d_severity = Some ''severe'', d_geometry = 0,
          d_centroid = 0, d_area_sq_km = Some 0\<rparr>],
      census_blocks =
        [\<lparr>cb_id = 1, cb_geometry = 0, cb_population = 1000, cb_households = Some 400,
          cb_elderly_population = Some 150, cb_children_population = Some 200,
          cb_disabled_population = None\<rparr>,
         \<lparr>cb_id = 2, cb_geometry = 7, cb_population = 500, cb_households = Some 200,
          cb_elderly_population = Some 50, cb_children_population = Some 100,
          cb_disabled_population = Some 20\<rparr>],
      infrastructure =
        [\<lparr>i_id = 2, i_name = ''North'', i_type = ''hospital'', i_location = 5,
          i_address = None, i_capacity = Some 80, i_operational_status = Some True\<rparr>,
         \<lparr>i_id = 1, i_name = ''South'', i_type = ''hospital'', i_location = - 5,
          i_address = None, i_capacity = Some 120, i_operational_status = Some True\<rparr>,
         \<lparr>i_id = 3, i_name = ''Central'', i_type = ''hospital'', i_location = 1,
          i_address = None, i_capacity = Some 300, i_operational_status = Some False\<rparr>,
         \<lparr>i_id = 4, i_name = ''Hall'', i_type = ''emergency_shelter'', i_location = 2,
          i_address = None, i_capacity = None, i_operational_status = Some True\<rparr>],
      impact_assessments = [],
      next_assessment_id = 1,
      now = 0,
      fault = (\<lambda>q. None)\<rparr>"

text \<open>The same database when the pool rejects the statement of \<open>estimateEconomicLoss\<close>.\<close>

definition quake_db_loss_query_rejected :: "int database" where
  "quake_db_loss_query_rejected =
     quake_db\<lparr>fault := (\<lambda>q. None)(QDisaster := Some (Error ''timeout exceeded when trying to connect''))\<rparr>"

text \<open>The same database when the statement of \<open>createEvacuationZones\<close> is rejected.\<close>

definition quake_db_zones_query_rejected :: "int database" where
  "quake_db_zones_query_rejected =
     quake_db\<lparr>fault := (\<lambda>q. None)(QZones := Some (Error ''timeout exceeded when trying to connect''))\<rparr>"

text \<open>The same database with the second census block only: no block meets the disaster.\<close>

definition quake_db_no_block_hit :: "int database" where
  "quake_db_no_block_hit = quake_db\<lparr>census_blocks := tl (census_blocks quake_db)\<rparr>"

text \<open>
  The same database with a moderate flood of 2.5 square kilometres as its only disaster, and
  with a flood whose severity is NULL.
\<close>

definition flood_db :: "int database" where
  "flood_db =
     quake_db\<lparr>disasters :=
        [\<lparr>d_id = 7, d_type = ''flood'', d_severity = Some ''moderate'', d_geometry = 7,
          d_centroid = 7, d_area_sq_km = Some (5 / 2)\<rparr>]\<rparr>"


section \<open>Vulnerability score: properties\<close>









text \<open>
  C10, as stated, fails: with a population of 0 and four positive counts every percentage
  is \<open>Infinity\<close>, so is the rounded sum, and \<open>Math.min\<close> returns 100, a number in [0, 100].
\<close>

theorem vulnerabilityScore_zero_population_100:
  "calculateVulnerabilityScore
     \<lparr>elderly_population = Number (Num 1), children_population = Number (Num 1),
      disabled_population = Number (Num 1), low_income_population = Number (Num 1),
      population = Number (Num 0)\<rparr> = Num 100"
  by (simp add: calculateVulnerabilityScore_def inf_of_sign_def)

text \<open>
  C10 (amended): a missing population counts as 1. With a population that is present and
  0 the function divides by zero: the result is NaN when all four counts are 0, and more
  generally whenever a count is 0 or two counts differ in sign; it is the number 100 when
  all four counts are positive, and \<open>-Infinity\<close> when all four are negative.
\<close>

theorem vulnerabilityScore_zero_population:
  "calculateVulnerabilityScore (d\<lparr>population := Undefined\<rparr>)
     = calculateVulnerabilityScore (d\<lparr>population := Number (Num 1)\<rparr>)
   \<and> calculateVulnerabilityScore (numeric_demographics 0 0 0 0 0) = NaN
   \<and> calculateVulnerabilityScore (numeric_demographics e c x l 0) =
       (if 0 < e \<and> 0 < c \<and> 0 < x \<and> 0 < l then Num 100
        else if e < 0 \<and> c < 0 \<and> x < 0 \<and> l < 0 then NegInf
        else NaN)"
  by (simp add: calculateVulnerabilityScore_def numeric_demographics_def inf_of_sign_def
      sgn_real_def)

section \<open>Economic loss: properties\<close>

lemma basePerPersonLoss_nonzero: "map_of basePerPersonLoss s = Some b \<Longrightarrow> b \<noteq> 0"
  by (auto simp: basePerPersonLoss_def split: if_splits)

lemma typeMultipliers_nonzero: "map_of typeMultipliers t = Some m \<Longrightarrow> m \<noteq> 0"
  by (auto simp: typeMultipliers_def split: if_splits)

lemma or_else_lookup_base:
  "or_else (lookup basePerPersonLoss sev) 10000 =
     (case sev of None \<Rightarrow> 10000
      | Some s \<Rightarrow> (case map_of basePerPersonLoss s of None \<Rightarrow> 10000 | Some b \<Rightarrow> b))"
  by (auto simp: or_else_def lookup_def dest: basePerPersonLoss_nonzero split: option.splits)

lemma or_else_lookup_mult:
  "or_else (lookup typeMultipliers (Some t)) 1 =
     (case map_of typeMultipliers t of None \<Rightarrow> 1 | Some m \<Rightarrow> m)"
  by (auto simp: or_else_def lookup_def dest: typeMultipliers_nonzero split: option.splits)

lemma estimateEconomicLoss_try_found:
  assumes "fault db QDisaster = None"
    and "filter (\<lambda>d. d_id d = i) (disasters db) = row # rest"
  shows "estimateEconomicLoss_try db i (Num p) =
     Inr (Num (of_int (round
        (p * (case d_severity row of None \<Rightarrow> 10000
              | Some s \<Rightarrow> (case map_of basePerPersonLoss s of None \<Rightarrow> 10000 | Some b \<Rightarrow> b))
           * (case map_of typeMultipliers (d_type row) of None \<Rightarrow> 1 | Some m \<Rightarrow> m)
         + (case d_area_sq_km row of None \<Rightarrow> 0 | Some a \<Rightarrow> a) * 500000))))"
  using assms
  by (simp add: estimateEconomicLoss_try_def db_query_def or_else_lookup_base
      or_else_lookup_mult round_def split: option.splits)

lemma estimateEconomicLoss_rejected:
  "fault db QDisaster \<noteq> None \<Longrightarrow> estimateEconomicLoss db i n = Num 0"
  by (auto simp: estimateEconomicLoss_def estimateEconomicLoss_try_def db_query_def)

text \<open>
  C2: when the disaster's severity and type are keys of the two tables, the estimate is
  the affected population times the per-person loss of the severity times the multiplier
  of the type, plus the area (0 when NULL) times 500000, rounded to the nearest integer;
  for a severe earthquake of area 0 and 1000 people it is 80,000,000.
\<close>

theorem estimateEconomicLoss_formula:
  assumes "fault db QDisaster = None"
    and "filter (\<lambda>d. d_id d = i) (disasters db) = row # rest"
    and "d_severity row = Some sev"
    and "map_of basePerPersonLoss sev = Some b"
    and "map_of typeMultipliers (d_type row) = Some m"
  shows "estimateEconomicLoss db i (Num p) =
           Num (of_int (round (p * b * m
                  + (case d_area_sq_km row of None \<Rightarrow> 0 | Some a \<Rightarrow> a) * 500000)))
         \<and> estimateEconomicLoss quake_db 1 (Num 1000) = Num 80000000"
proof
  show "estimateEconomicLoss db i (Num p) =
           Num (of_int (round (p * b * m
                  + (case d_area_sq_km row of None \<Rightarrow> 0 | Some a \<Rightarrow> a) * 500000)))"
    using assms by (simp add: estimateEconomicLoss_def estimateEconomicLoss_try_found)
  have "fault quake_db QDisaster = None"
    by (simp add: quake_db_def)
  moreover have "filter (\<lambda>d. d_id d = 1) (disasters quake_db) = hd (disasters quake_db) # []"
    by (simp add: quake_db_def)
  ultimately show "estimateEconomicLoss quake_db 1 (Num 1000) = Num 80000000"
    by (simp add: estimateEconomicLoss_def estimateEconomicLoss_try_found)
      (simp add: quake_db_def basePerPersonLoss_def typeMultipliers_def)
qed

theorem estimateEconomicLoss_formula_witness:
  "fault flood_db QDisaster = None
   \<and> map_of basePerPersonLoss ''moderate'' = Some 15000
   \<and> map_of typeMultipliers ''flood'' = Some (12 / 10)
   \<and> estimateEconomicLoss flood_db 7 (Num 10) = Num 1430000"
proof -
  have 1: "fault flood_db QDisaster = None"
    by (simp add: flood_db_def quake_db_def)
  have 2: "filter (\<lambda>d. d_id d = 7) (disasters flood_db) = hd (disasters flood_db) # []"
    by (simp add: flood_db_def)
  have 3: "d_severity (hd (disasters flood_db)) = Some ''moderate''"
    by (simp add: flood_db_def)
  have 4: "map_of basePerPersonLoss ''moderate'' = Some 15000"
    by (simp add: basePerPersonLoss_def)
  have 5: "map_of typeMultipliers (d_type (hd (disasters flood_db))) = Some (12 / 10)"
    by (simp add: typeMultipliers_def flood_db_def)
  from estimateEconomicLoss_formula [OF 1 2 3 4 5, of 10] 1 4 5
  show ?thesis
    by (simp add: flood_db_def)
qed



section \<open>Population aggregate: the empty case\<close>

lemma comprehension_filter: "[f d. d \<leftarrow> xs, P d] = map f (filter P xs)"
  by (induction xs) simp_all

lemma calculateAffectedPopulation_no_block:
  assumes "intersecting_blocks G db i = []" and "fault db QPopulation = None"
  shows "calculateAffectedPopulation G db i =
     Inr \<lparr>r_total_population = SqlNull, r_total_households = SqlNull,
          r_elderly_population = SqlNull, r_children_population = SqlNull,
          r_disabled_population = SqlNull, r_affected_census_blocks = Int8Text 0\<rparr>"
  using assms
  by (simp add: calculateAffectedPopulation_def db_query_def sql_sum_def sql_count_def)

text \<open>
  C5 does not hold of \<open>calculateAffectedPopulation\<close>: when no census block meets the
  disaster, the call succeeds, but the five sums of the returned row are \<open>null\<close> and the
  block count is the string of 0, not the number 0. (\<open>getDisasterImpactSummary\<close> turns
  each of the six into the number 0 with \<open>parseInt(...) || 0\<close>.)
\<close>

theorem calculateAffectedPopulation_no_block_hit:
  "intersecting_blocks line_postgis quake_db_no_block_hit 1 = []
   \<and> calculateAffectedPopulation line_postgis quake_db_no_block_hit 1 =
       Inr \<lparr>r_total_population = SqlNull, r_total_households = SqlNull,
            r_elderly_population = SqlNull, r_children_population = SqlNull,
            r_disabled_population = SqlNull, r_affected_census_blocks = Int8Text 0\<rparr>
   \<and> map_sum id summary_population (getDisasterImpactSummary line_postgis quake_db_no_block_hit 1) =
       Inr \<lparr>total = Num 0, households = Num 0,
            vulnerable = \<lparr>elderly = Num 0, children = Num 0, disabled = Num 0\<rparr>,
            affected_census_blocks = Num 0\<rparr>"
  by (simp add: getDisasterImpactSummary_def calculateAffectedPopulation_def
      findAffectedInfrastructure_def createEvacuationZones_def db_query_def first_row_def
      intersecting_blocks_def quake_db_no_block_hit_def quake_db_def line_postgis_def
      sql_sum_def sql_count_def)

section \<open>Full impact assessment: failure and success\<close>

lemma calculateFullImpact_failure_stores_nothing:
  "calculateFullImpact G db i = (Inl e, db') \<Longrightarrow> db' = db"
  by (auto simp: calculateFullImpact_def Let_def split: sum.splits option.splits prod.splits)

lemma getDisasterImpactSummary_rejected:
  "fault db QPopulation \<noteq> None \<or> fault db QInfrastructure \<noteq> None \<or> fault db QZones \<noteq> None
   \<Longrightarrow> \<exists>e. getDisasterImpactSummary G db i = Inl e"
  by (auto simp: getDisasterImpactSummary_def calculateAffectedPopulation_def
      findAffectedInfrastructure_def createEvacuationZones_def db_query_def Let_def
      split: sum.splits option.splits)

lemma getDisasterImpactSummary_no_zones:
  "getDisasterImpactSummary G db i = Inr s \<Longrightarrow> filter (\<lambda>d. d_id d = i) (disasters db) = []
   \<Longrightarrow> evacuation_zones s = None"
  by (auto simp: getDisasterImpactSummary_def calculateAffectedPopulation_def
      findAffectedInfrastructure_def createEvacuationZones_def db_query_def Let_def first_row_def
      comprehension_filter
      split: sum.splits option.splits)

lemma calculateFullImpact_aborts:
  assumes "fault db QPopulation \<noteq> None \<or> fault db QInfrastructure \<noteq> None
           \<or> fault db QZones \<noteq> None \<or> fault db QInsert \<noteq> None
           \<or> filter (\<lambda>d. d_id d = i) (disasters db) = []"
  shows "\<exists>e. calculateFullImpact G db i = (Inl e, db)"
proof (cases "getDisasterImpactSummary G db i")
  case (Inl e)
  then show ?thesis by (simp add: calculateFullImpact_def)
next
  case (Inr s)
  have nf: "\<not> (fault db QPopulation \<noteq> None \<or> fault db QInfrastructure \<noteq> None
                 \<or> fault db QZones \<noteq> None)"
  proof
    assume "fault db QPopulation \<noteq> None \<or> fault db QInfrastructure \<noteq> None
                 \<or> fault db QZones \<noteq> None"
    then obtain e where "getDisasterImpactSummary G db i = Inl e"
      using getDisasterImpactSummary_rejected by blast
    with Inr show False by simp
  qed
  show ?thesis
  proof (cases "evacuation_zones s")
    case None
    with Inr show ?thesis by (simp add: calculateFullImpact_def Let_def)
  next
    case (Some z)
    with Inr getDisasterImpactSummary_no_zones [of G db i s]
    have "filter (\<lambda>d. d_id d = i) (disasters db) \<noteq> []"
      by auto
    with assms nf obtain e where "fault db QInsert = Some e"
      by auto
    with Inr Some show ?thesis
      by (simp add: calculateFullImpact_def Let_def db_query_def)
  qed
qed

text \<open>
  When the statement of \<open>estimateEconomicLoss\<close> is rejected, its \<open>catch\<close> block turns the
  error into the number 0, and an assessment that is returned carries and stores that 0.
\<close>

lemma calculateFullImpact_loss_query_rejected:
  "fault db QDisaster \<noteq> None \<Longrightarrow> calculateFullImpact G db i = (Inr a, db')
   \<Longrightarrow> estimated_economic_loss a = Num 0
       \<and> map estimated_economic_loss (impact_assessments db')
           = map estimated_economic_loss (impact_assessments db) @ [Num 0]"
  by (auto simp: calculateFullImpact_def Let_def estimateEconomicLoss_rejected
      split: sum.splits option.splits prod.splits)

lemma calculateFullImpact_succeeds:
  assumes "fault db QPopulation = None" and "fault db QInfrastructure = None"
    and "fault db QZones = None" and "fault db QInsert = None"
    and "filter (\<lambda>d. d_id d = i) (disasters db) = d # ds"
  shows "\<exists>a r. calculateFullImpact G db i =
            (Inr a, db\<lparr>impact_assessments := impact_assessments db @ [r],
                        next_assessment_id := next_assessment_id db + 1\<rparr>)
          \<and> row_id r = assessment_id a
          \<and> affected_population r = affected_population a
          \<and> estimated_economic_loss r = estimated_economic_loss a"
  using assms
  by (simp add: calculateFullImpact_def getDisasterImpactSummary_def
      calculateAffectedPopulation_def findAffectedInfrastructure_def createEvacuationZones_def
      db_query_def Let_def first_row_def comprehension_filter)
    (rule exI, intro conjI, rule refl, simp_all)

text \<open>
  C1 does not hold of \<open>calculateFullImpact\<close>: when the statement of
  \<open>estimateEconomicLoss\<close> is rejected and the other four succeed, the estimation fails
  (the \<open>try\<close> block throws), and yet an assessment is returned and stored, with an
  economic loss of 0.
\<close>

theorem calculateFullImpact_survives_loss_failure:
  "estimateEconomicLoss_try quake_db_loss_query_rejected 1 (Num 1000)
     = Inl (Error ''timeout exceeded when trying to connect'')
   \<and> calculateFullImpact line_postgis quake_db_loss_query_rejected 1 =
      (Inr \<lparr>disaster_id = 1, affected_population = Num 1000,
            affected_households = Num 400, vulnerable_population = Num 350,
            affected_hospitals = Num 3, affected_shelters = Num 1,
            affected_critical_infrastructure = Num 4,
            estimated_economic_loss = Num 0, affected_area_sq_km = 0,
            assessment_id = 1, assessment_time = 0,
            infrastructure_details =
              [\<lparr>h_id = 3, h_name = ''Central'', h_type = ''hospital'',
                h_capacity = Some 300, h_operational_status = Some False,
                h_location = 1, h_distance_km = 1 / 1000\<rparr>,
               \<lparr>h_id = 4, h_name = ''Hall'', h_type = ''emergency_shelter'',
                h_capacity = None, h_operational_status = Some True,
                h_location = 2, h_distance_km = 2 / 1000\<rparr>,
               \<lparr>h_id = 2, h_name = ''North'', h_type = ''hospital'',
                h_capacity = Some 80, h_operational_status = Some True,
                h_location = 5, h_distance_km = 1 / 200\<rparr>,
               \<lparr>h_id = 1, h_name = ''South'', h_type = ''hospital'',
                h_capacity = Some 120, h_operational_status = Some True,
                h_location = - 5, h_distance_km = 1 / 200\<rparr>],
            vulnerable_breakdown =
              \<lparr>elderly = Num 150, children = Num 200, disabled = Num 0\<rparr>\<rparr>,
       quake_db_loss_query_rejected
         \<lparr>impact_assessments :=
            [\<lparr>disaster_id = 1, affected_population = Num 1000,
              affected_households = Num 400, vulnerable_population = Num 350,
              affected_hospitals = Num 3, affected_shelters = Num 1,
              affected_critical_infrastructure = Num 4,
              estimated_economic_loss = Num 0, affected_area_sq_km = 0, row_id = 1,
              row_assessment_time = 0, evacuation_zone_1km = 0,
              evacuation_zone_5km = 0, evacuation_zone_10km = 0\<rparr>],
          next_assessment_id := 2\<rparr>)"
  by (simp add: calculateFullImpact_def getDisasterImpactSummary_def calculateAffectedPopulation_def
      findAffectedInfrastructure_def createEvacuationZones_def db_query_def Let_def first_row_def
      estimateEconomicLoss_def estimateEconomicLoss_try_def intersecting_blocks_def
      quake_db_loss_query_rejected_def quake_db_def line_postgis_def sql_sum_def sql_count_def
      infrastructureByType_def count_or_zero_def)

text \<open>
  Every other failure does abort the assessment. It fails, and the database is left as it
  was, whenever the population aggregate, the infrastructure search, the zone generation
  or the final insert fails, or no disaster has the identifier; no failed assessment
  stores anything; when none of these fails, one fully filled assessment is returned and
  the same values are stored as one new row.
\<close>

theorem calculateFullImpact_all_or_nothing:
  "(fault db QPopulation \<noteq> None \<or> fault db QInfrastructure \<noteq> None
      \<or> fault db QZones \<noteq> None \<or> fault db QInsert \<noteq> None
      \<or> filter (\<lambda>d. d_id d = i) (disasters db) = []
     \<longrightarrow> (\<exists>e. calculateFullImpact G db i = (Inl e, db)))
   \<and> (\<forall>e db'. calculateFullImpact G db i = (Inl e, db') \<longrightarrow> db' = db)
   \<and> (fault db QPopulation = None \<and> fault db QInfrastructure = None
      \<and> fault db QZones = None \<and> fault db QInsert = None
      \<and> filter (\<lambda>d. d_id d = i) (disasters db) \<noteq> []
     \<longrightarrow> (\<exists>a r. calculateFullImpact G db i =
            (Inr a, db\<lparr>impact_assessments := impact_assessments db @ [r],
                        next_assessment_id := next_assessment_id db + 1\<rparr>)
          \<and> row_id r = assessment_id a
          \<and> affected_population r = affected_population a
          \<and> estimated_economic_loss r = estimated_economic_loss a))"
proof (intro conjI impI allI)
  assume "fault db QPopulation \<noteq> None \<or> fault db QInfrastructure \<noteq> None
      \<or> fault db QZones \<noteq> None \<or> fault db QInsert \<noteq> None
      \<or> filter (\<lambda>d. d_id d = i) (disasters db) = []"
  then show "\<exists>e. calculateFullImpact G db i = (Inl e, db)"
    by (rule calculateFullImpact_aborts)
next
  fix e db'
  assume "calculateFullImpact G db i = (Inl e, db')"
  then show "db' = db"
    by (rule calculateFullImpact_failure_stores_nothing)
next
  assume ok: "fault db QPopulation = None \<and> fault db QInfrastructure = None
      \<and> fault db QZones = None \<and> fault db QInsert = None
      \<and> filter (\<lambda>d. d_id d = i) (disasters db) \<noteq> []"
  then obtain d ds where "filter (\<lambda>d. d_id d = i) (disasters db) = d # ds"
    by (cases "filter (\<lambda>d. d_id d = i) (disasters db)") auto
  with ok show "\<exists>a r. calculateFullImpact G db i =
            (Inr a, db\<lparr>impact_assessments := impact_assessments db @ [r],
                        next_assessment_id := next_assessment_id db + 1\<rparr>)
          \<and> row_id r = assessment_id a
          \<and> affected_population r = affected_population a
          \<and> estimated_economic_loss r = estimated_economic_loss a"
    by (intro calculateFullImpact_succeeds) simp_all
qed

theorem calculateFullImpact_all_or_nothing_witness:
  "fault quake_db_zones_query_rejected QZones \<noteq> None
   \<and> calculateFullImpact line_postgis quake_db_zones_query_rejected 1
       = (Inl (Error ''timeout exceeded when trying to connect''), quake_db_zones_query_rejected)
   \<and> fault quake_db QPopulation = None \<and> fault quake_db QInfrastructure = None
   \<and> fault quake_db QZones = None \<and> fault quake_db QInsert = None
   \<and> filter (\<lambda>d. d_id d = 1) (disasters quake_db) \<noteq> []
   \<and> map estimated_economic_loss
        (impact_assessments (snd (calculateFullImpact line_postgis quake_db 1)))
       = [Num 80000000]"
proof -
  have z: "fault quake_db_zones_query_rejected QZones \<noteq> None"
    by (simp add: quake_db_zones_query_rejected_def)
  from calculateFullImpact_all_or_nothing [of quake_db_zones_query_rejected 1 line_postgis] z
  obtain e where e: "calculateFullImpact line_postgis quake_db_zones_query_rejected 1
                       = (Inl e, quake_db_zones_query_rejected)"
    by blast
  have "fst (calculateFullImpact line_postgis quake_db_zones_query_rejected 1)
          = Inl (Error ''timeout exceeded when trying to connect'')"
    by (simp add: calculateFullImpact_def getDisasterImpactSummary_def
        calculateAffectedPopulation_def findAffectedInfrastructure_def createEvacuationZones_def
        db_query_def Let_def quake_db_zones_query_rejected_def quake_db_def)
  with e have "calculateFullImpact line_postgis quake_db_zones_query_rejected 1
          = (Inl (Error ''timeout exceeded when trying to connect''), quake_db_zones_query_rejected)"
    by simp
  moreover have ok: "fault quake_db QPopulation = None \<and> fault quake_db QInfrastructure = None
      \<and> fault quake_db QZones = None \<and> fault quake_db QInsert = None
      \<and> filter (\<lambda>d. d_id d = 1) (disasters quake_db) \<noteq> []"
    by (simp add: quake_db_def)
  moreover have "map estimated_economic_loss
        (impact_assessments (snd (calculateFullImpact line_postgis quake_db 1)))
       = [Num 80000000]"
  proof -
    from calculateFullImpact_all_or_nothing [of quake_db 1 line_postgis] ok
    obtain a r where ar: "calculateFullImpact line_postgis quake_db 1 =
            (Inr a, quake_db\<lparr>impact_assessments := impact_assessments quake_db @ [r],
                        next_assessment_id := next_assessment_id quake_db + 1\<rparr>)"
      "estimated_economic_loss r = estimated_economic_loss a"
      by blast
    have "estimated_economic_loss a = estimateEconomicLoss quake_db 1 (Num 1000)"
      using ar(1)
      by (simp add: calculateFullImpact_def getDisasterImpactSummary_def
          calculateAffectedPopulation_def findAffectedInfrastructure_def createEvacuationZones_def
          db_query_def Let_def first_row_def intersecting_blocks_def sql_sum_def
          quake_db_def line_postgis_def)
        (auto simp: quake_db_def)
    moreover have "estimateEconomicLoss quake_db 1 (Num 1000) = Num 80000000"
      by (simp add: estimateEconomicLoss_def estimateEconomicLoss_try_def db_query_def
          quake_db_def lookup_def or_else_def basePerPersonLoss_def typeMultipliers_def)
    ultimately show ?thesis
      using ar by (simp add: quake_db_def)
  qed
  ultimately show ?thesis
    using z by blast
qed

section \<open>Nearest infrastructure: order, filter and rejected requests\<close>









text \<open>
  C4: a request to the nearest-infrastructure endpoint without a type (or with the empty
  string) is answered with status 400 before any statement is sent. A request whose type
  is no label of the enum \<open>infrastructure_type\<close> never gets a result list: the service call
  fails, and when the statement reaches the server the answer is status 400.
\<close>

theorem findNearest_rejects_bad_type:
  "(query_type req = None \<or> query_type req = Some [] \<longrightarrow>
      findNearest G db req = Respond (Json_failure 400 ''Infrastructure type is required'')
      \<and> route_nearest G db req = Json_failure 400 ''Infrastructure type is required'')
   \<and> (query_type req = Some t \<and> t \<noteq> [] \<and> t \<notin> set infrastructure_type \<longrightarrow>
        (\<forall>r. route_nearest G db req \<noteq> Json_success r)
        \<and> (\<forall>rows. findNearestInfrastructure G db \<lparr>lat = params_lat req, lng = params_lng req\<rparr>
               (Some t) (parseInt_limit (query_limit req)) \<noteq> Inr rows)
        \<and> (fault db QNearest = None \<longrightarrow>
             route_nearest G db req = Json_failure 400 ''Invalid data format''))"
proof (intro conjI impI allI)
  assume "query_type req = None \<or> query_type req = Some []"
  then show "findNearest G db req = Respond (Json_failure 400 ''Infrastructure type is required'')"
    and "route_nearest G db req = Json_failure 400 ''Infrastructure type is required''"
    by (auto simp: route_nearest_def findNearest_def)
next
  assume a: "query_type req = Some t \<and> t \<noteq> [] \<and> t \<notin> set infrastructure_type"
  then have svc: "\<exists>e. findNearestInfrastructure G db \<lparr>lat = params_lat req, lng = params_lng req\<rparr>
               (Some t) (parseInt_limit (query_limit req)) = Inl e"
    by (auto simp: findNearestInfrastructure_def Let_def split: option.splits)
  then show "findNearestInfrastructure G db \<lparr>lat = params_lat req, lng = params_lng req\<rparr>
               (Some t) (parseInt_limit (query_limit req)) \<noteq> Inr rows" for rows
    by auto
  from svc a obtain e where "findNearest G db req = Next e"
    by (auto simp: findNearest_def)
  then have "route_nearest G db req = errorHandler e"
    by (simp add: route_nearest_def)
  then show "route_nearest G db req \<noteq> Json_success r" for r
    by (cases e) (auto split: if_splits)
  assume "fault db QNearest = None"
  with a show "route_nearest G db req = Json_failure 400 ''Invalid data format''"
    by (auto simp: route_nearest_def findNearest_def findNearestInfrastructure_def Let_def)
qed

theorem findNearest_rejects_bad_type_witness:
  "route_nearest line_postgis quake_db
      \<lparr>params_lat = 0, params_lng = 0, query_type = None, query_limit = Absent\<rparr>
     = Json_failure 400 ''Infrastructure type is required''
   \<and> ''volcano'' \<notin> set infrastructure_type
   \<and> fault quake_db QNearest = None
   \<and> route_nearest line_postgis quake_db
      \<lparr>params_lat = 0, params_lng = 0, query_type = Some ''volcano'', query_limit = Digits 3\<rparr>
     = Json_failure 400 ''Invalid data format''"
proof -
  have 1: "''volcano'' \<notin> set infrastructure_type"
    by (simp add: infrastructure_type_def)
  have 2: "fault quake_db QNearest = None"
    by (simp add: quake_db_def)
  from findNearest_rejects_bad_type
         [of "\<lparr>params_lat = 0, params_lng = 0, query_type = None, query_limit = Absent\<rparr>"
             line_postgis quake_db]
  have "route_nearest line_postgis quake_db
      \<lparr>params_lat = 0, params_lng = 0, query_type = None, query_limit = Absent\<rparr>
     = Json_failure 400 ''Infrastructure type is required''"
    by simp
  moreover
  from findNearest_rejects_bad_type
         [of "\<lparr>params_lat = 0, params_lng = 0, query_type = Some ''volcano'',
               query_limit = Digits 3\<rparr>" line_postgis quake_db "''volcano''"] 1 2
  have "route_nearest line_postgis quake_db
      \<lparr>params_lat = 0, params_lng = 0, query_type = Some ''volcano'', query_limit = Digits 3\<rparr>
     = Json_failure 400 ''Invalid data format''"
    by simp
  ultimately show ?thesis
    using 1 2 by blast
qed

end
